theory Spec2Isabelle
  imports Main
begin

section \<open>JavaScript values used by the bot\<close>

text \<open>
  An optional string models a JavaScript value that is either a string or absent
  (\<open>null\<close> / \<open>undefined\<close>). \<open>truthy\<close> is the test that \<open>!x\<close>, \<open>x || y\<close> and
  \<open>if (x)\<close> apply to such a value: an absent value and the empty string are falsy.
\<close>

fun truthy :: "string option \<Rightarrow> bool" where
  "truthy None = False"
| "truthy (Some s) = (s \<noteq> [])"

text \<open>\<open>a || b\<close> where \<open>b\<close> is a string: \<open>a\<close> when it is truthy, else \<open>b\<close>.\<close>

definition or_else :: "string option \<Rightarrow> string \<Rightarrow> string" where
  "or_else a b = (case a of None \<Rightarrow> b | Some s \<Rightarrow> if s \<noteq> [] then s else b)"

text \<open>\<open>String.prototype.startsWith\<close> and \<open>String.prototype.includes\<close>.\<close>

fun startsWith :: "string \<Rightarrow> string \<Rightarrow> bool" where
  "startsWith s [] = True"
| "startsWith [] (c # cs) = False"
| "startsWith (x # xs) (c # cs) = (x = c \<and> startsWith xs cs)"

fun includes_str :: "string \<Rightarrow> string \<Rightarrow> bool" where
  "includes_str [] sub = (sub = [])"
| "includes_str (x # xs) sub = (startsWith (x # xs) sub \<or> includes_str xs sub)"

text \<open>A number inside a template literal, for integers.\<close>

fun show_nat :: "nat \<Rightarrow> string" where
  "show_nat n =
     (if n < 10 then [''0123456789'' ! n]
      else show_nat (n div 10) @ [''0123456789'' ! (n mod 10)])"

declare show_nat.simps [simp del]

definition show_int :: "int \<Rightarrow> string" where
  "show_int i = (if i < 0 then ''-'' @ show_nat (nat (- i)) else show_nat (nat i))"

text \<open>\<open>Array.prototype.join\<close>\<close>

fun join :: "string \<Rightarrow> string list \<Rightarrow> string" where
  "join sep [] = []"
| "join sep [x] = x"
| "join sep (x # y # ys) = x @ sep @ join sep (y # ys)"

text \<open>
  A JSON value as \<open>JSON.parse\<close> returns it; an object lists its members in order. Numbers
  are integers here: a fractional number is outside the model.
\<close>

datatype json =
    JNull
  | JBool bool
  | JNumber int
  | JString string
  | JArray "json list"
  | JObject "(string \<times> json) list"

text \<open>
  The truthiness of a JSON value: \<open>null\<close>, \<open>false\<close>, \<open>0\<close> and the empty string are falsy,
  every array and object is truthy.
\<close>

fun truthy_json :: "json \<Rightarrow> bool" where
  "truthy_json JNull = False"
| "truthy_json (JBool b) = b"
| "truthy_json (JNumber n) = (n \<noteq> 0)"
| "truthy_json (JString s) = (s \<noteq> [])"
| "truthy_json (JArray xs) = True"
| "truthy_json (JObject members) = True"

text \<open>
  \<open>String(x)\<close>, the conversion \<open>new Error(x)\<close> applies to its argument: a string is
  itself, an object is \<open>[object Object]\<close>, an array joins the conversions of its elements
  with commas (\<open>null\<close> elements give the empty string).
\<close>

fun js_string :: "json \<Rightarrow> string" and js_elements :: "json list \<Rightarrow> string list" where
  "js_string JNull = ''null''"
| "js_string (JBool b) = (if b then ''true'' else ''false'')"
| "js_string (JNumber n) = show_int n"
| "js_string (JString s) = s"
| "js_string (JArray xs) = join '','' (js_elements xs)"
| "js_string (JObject members) = ''[object Object]''"
| "js_elements [] = []"
| "js_elements (x # xs) = (if x = JNull then [] else js_string x) # js_elements xs"

text \<open>\<open>o[key]\<close> on a parsed object: of members with the same key the last one counts.\<close>

definition json_member :: "(string \<times> json) list \<Rightarrow> string \<Rightarrow> json option" where
  "json_member members key = map_of (rev members) key"

section \<open>The authenticated API client (api-client.js)\<close>

text \<open>
  The fields of a \<open>TetracubedAPIClient\<close>. \<open>accessToken\<close> and \<open>tokenExpiry\<close> are
  \<open>None\<close> where the object holds \<open>null\<close>; times are milliseconds since the epoch as
  \<open>Date.now()\<close> returns them (integers far below \<open>2^53\<close>, so the additions are exact).
\<close>

record session =
  baseURL :: string
  username :: string
  password :: string
  accessToken :: "string option"
  tokenExpiry :: "int option"

text \<open>
  Modelled from the spec: the body of a 2xx reply of the token endpoint, which the
  control-plane API declares as \<open>{access_token: string}\<close>; its declaration is not part of
  the repository.
\<close>

record token_response =
  access_token :: string

text \<open>
  What the catch blocks read from an error thrown by axios: \<open>error.message\<close> and
  \<open>error.response?.data\<close>, which is absent for a network error and otherwise the reply
  body, any JSON value.
\<close>

record axios_error =
  ax_message :: string
  ax_data :: "json option"

text \<open>
  \<open>error.response?.data?.detail\<close>: the member \<open>detail\<close> of a body that is an object,
  of any JSON type; absent for every other body.
\<close>

definition ax_detail :: "axios_error \<Rightarrow> json option" where
  "ax_detail e = (case ax_data e of Some (JObject members) \<Rightarrow> json_member members ''detail'' | _ \<Rightarrow> None)"

text \<open>
  An error object as the handlers see it: \<open>error.message\<close> and \<open>error.code\<close>, either of
  which may be absent. \<open>new Error(m)\<close> has the message \<open>m\<close> and no code.
\<close>

record js_error =
  err_message :: "string option"
  err_code :: "string option"

definition Error :: "string \<Rightarrow> js_error" where
  "Error m = \<lparr>err_message = Some m, err_code = None\<rparr>"

text \<open>
  Modelled from the spec: a \<open>ResourceSnapshot\<close>, the body of the resources endpoint,
  either \<open>{message}\<close> or \<open>{stack_name, outputs}\<close> with \<open>outputs\<close> a mapping from strings
  to strings.
\<close>

record resource_snapshot =
  rs_message :: "string option"
  stack_name :: "string option"
  outputs :: "(string \<rightharpoonup> string) option"

text \<open>The body returned by the start and stop endpoints; the handlers read \<open>public_ip\<close>.\<close>

record control_response =
  public_ip :: "string option"

text \<open>
  What the client does to the outside world, in order: the POST of \<open>authenticate\<close> to
  the token endpoint, a bearer-authenticated request (method, URL, Authorization header,
  timeout in milliseconds when one is passed), a line of \<open>console.error\<close>, and a query of
  the game protocol (host, port, timeout) issued by the handlers of index.js.
\<close>

datatype log_payload =
    LogBody json
  | LogText string
  | LogError js_error

datatype event =
    TokenPost string string string
  | ApiRequest string string string "nat option"
  | ConsoleError string log_payload
  | StatusQuery string nat nat

text \<open>
  The replies of the outside world to one operation of the client: the clock read by
  \<open>ensureAuthenticated\<close>, the outcome of the token request with the clock read when it
  returns, and the outcome of the remote call itself.
\<close>

record ('a) op_env =
  now_check :: int
  token_reply :: "axios_error + token_response"
  now_issued :: int
  remote_reply :: "axios_error + 'a"

text \<open>
  Every operation below returns its result (an error thrown is \<open>Inl\<close>), the session
  afterwards and the events it caused, in order.
\<close>

definition result_of :: "'r \<times> 's \<times> 't \<Rightarrow> 'r" where
  "result_of x = fst x"

definition state_of :: "'r \<times> 's \<times> 't \<Rightarrow> 's" where
  "state_of x = fst (snd x)"

definition trace_of :: "'r \<times> 's \<times> 't \<Rightarrow> 't" where
  "trace_of x = snd (snd x)"

definition TetracubedAPIClient :: "string \<Rightarrow> string \<Rightarrow> string \<Rightarrow> session" where
  "TetracubedAPIClient b u p =
     \<lparr>baseURL = b, username = u, password = p, accessToken = None, tokenExpiry = None\<rparr>"

text \<open>\<open>error.response?.data || error.message\<close>, the value the client logs.\<close>

definition log_of :: "axios_error \<Rightarrow> log_payload" where
  "log_of e =
     (case ax_data e of
        Some body \<Rightarrow> if truthy_json body then LogBody body else LogText (ax_message e)
      | None \<Rightarrow> LogText (ax_message e))"

text \<open>
  \<open>error.response?.data?.detail || fallback\<close> as the message of \<open>new Error(...)\<close>: the
  conversion of a truthy detail, of whatever type, else the fallback.
\<close>

definition thrown_message :: "axios_error \<Rightarrow> string \<Rightarrow> string" where
  "thrown_message e fallback =
     (case ax_detail e of
        Some d \<Rightarrow> if truthy_json d then js_string d else fallback
      | None \<Rightarrow> fallback)"

text \<open>
  \<open>authenticate\<close>: the result (the thrown error or \<open>true\<close>), the session afterwards and
  what was done. \<open>now\<close> is \<open>Date.now()\<close> read after the reply has arrived.
\<close>

definition authenticate ::
  "axios_error + token_response \<Rightarrow> int \<Rightarrow> session \<Rightarrow> (js_error + bool) \<times> session \<times> event list" where
  "authenticate reply now s =
     (let post = TokenPost (baseURL s @ ''/token'') (username s) (password s) in
      case reply of
        Inr response \<Rightarrow>
          (Inr True,
           s\<lparr>accessToken := Some (access_token response),
             tokenExpiry := Some (now + (25 * 60 * 1000))\<rparr>,
           [post])
      | Inl error \<Rightarrow>
          (Inl (Error ''Failed to authenticate with Tetracubed API''),
           s,
           [post, ConsoleError ''Authentication failed:'' (log_of error)]))"

text \<open>
  \<open>Date.now() >= this.tokenExpiry\<close>: a \<open>null\<close> expiry converts to the number 0.
\<close>

definition expired :: "int \<Rightarrow> int option \<Rightarrow> bool" where
  "expired now e = (case e of None \<Rightarrow> now \<ge> 0 | Some t \<Rightarrow> now \<ge> t)"

definition ensureAuthenticated ::
  "int \<Rightarrow> axios_error + token_response \<Rightarrow> int \<Rightarrow> session \<Rightarrow> (js_error + unit) \<times> session \<times> event list" where
  "ensureAuthenticated now reply now' s =
     (if \<not> truthy (accessToken s) \<or> expired now (tokenExpiry s) then
        (case authenticate reply now' s of
           (Inl e, s', tr) \<Rightarrow> (Inl e, s', tr)
         | (Inr _, s', tr) \<Rightarrow> (Inr (), s', tr))
      else (Inr (), s, []))"

text \<open>\<open>`Bearer ${this.accessToken}`\<close>\<close>

definition bearer :: "session \<Rightarrow> string" where
  "bearer s = ''Bearer '' @ (case accessToken s of None \<Rightarrow> ''null'' | Some t \<Rightarrow> t)"

text \<open>
  The common shape of \<open>startServer\<close>, \<open>stopServer\<close> and \<open>getResources\<close>: ensure
  authentication (an error thrown there leaves the function), issue the request, return
  the body or log and throw \<open>new Error(error.response?.data?.detail || fallback)\<close>.
\<close>

definition remote_call ::
  "string \<Rightarrow> string \<Rightarrow> nat option \<Rightarrow> string \<Rightarrow> string \<Rightarrow> 'a op_env \<Rightarrow> session
     \<Rightarrow> (js_error + 'a) \<times> session \<times> event list" where
  "remote_call method path timeout label fallback env s =
     (case ensureAuthenticated (now_check env) (token_reply env) (now_issued env) s of
        (Inl e, s', tr) \<Rightarrow> (Inl e, s', tr)
      | (Inr _, s', tr) \<Rightarrow>
          (let req = ApiRequest method (baseURL s' @ path) (bearer s') timeout in
           case remote_reply env of
             Inr data \<Rightarrow> (Inr data, s', tr @ [req])
           | Inl error \<Rightarrow>
               (Inl (Error (thrown_message error fallback)),
                s',
                tr @ [req, ConsoleError label (log_of error)])))"

definition startServer ::
  "control_response op_env \<Rightarrow> session \<Rightarrow> (js_error + control_response) \<times> session \<times> event list" where
  "startServer = remote_call ''POST'' ''/tetracubed/start'' (Some 900000)
                   ''Start server failed:'' ''Failed to start server''"

definition stopServer ::
  "control_response op_env \<Rightarrow> session \<Rightarrow> (js_error + control_response) \<times> session \<times> event list" where
  "stopServer = remote_call ''POST'' ''/tetracubed/stop'' (Some 900000)
                  ''Stop server failed:'' ''Failed to stop server''"

definition getResources ::
  "resource_snapshot op_env \<Rightarrow> session \<Rightarrow> (js_error + resource_snapshot) \<times> session \<times> event list" where
  "getResources = remote_call ''GET'' ''/tetracubed/resources'' None
                    ''Get resources failed:'' ''Failed to get resources''"

text \<open>
  A call of one method of the client together with the replies it meets, and the effect
  of a sequence of such calls on a session: the session afterwards and everything done.
\<close>

datatype call =
    CallAuthenticate "axios_error + token_response" int
  | CallEnsureAuthenticated int "axios_error + token_response" int
  | CallStartServer "control_response op_env"
  | CallStopServer "control_response op_env"
  | CallGetResources "resource_snapshot op_env"

fun perform :: "call \<Rightarrow> session \<Rightarrow> session \<times> event list" where
  "perform (CallAuthenticate reply now) s = snd (authenticate reply now s)"
| "perform (CallEnsureAuthenticated now reply now') s = snd (ensureAuthenticated now reply now' s)"
| "perform (CallStartServer env) s = snd (startServer env s)"
| "perform (CallStopServer env) s = snd (stopServer env s)"
| "perform (CallGetResources env) s = snd (getResources env s)"

fun run :: "session \<Rightarrow> call list \<Rightarrow> session \<times> event list" where
  "run s [] = (s, [])"
| "run s (c # cs) =
     (case perform c s of (s', tr) \<Rightarrow>
        (case run s' cs of (s'', tr') \<Rightarrow> (s'', tr @ tr')))"

text \<open>The calls of \<open>authenticate\<close> in a trace: each one posts to the token endpoint.\<close>

fun is_authenticate :: "event \<Rightarrow> bool" where
  "is_authenticate (TokenPost _ _ _) = True"
| "is_authenticate _ = False"

definition authenticate_calls :: "event list \<Rightarrow> nat" where
  "authenticate_calls tr = length (filter is_authenticate tr)"

fun is_query :: "event \<Rightarrow> bool" where
  "is_query (StatusQuery _ _ _) = True"
| "is_query _ = False"

definition protocol_queries :: "event list \<Rightarrow> event list" where
  "protocol_queries tr = filter is_query tr"

section \<open>Runtime configuration (index.js)\<close>

text \<open>
  The \<open>config\<close> object maps keys to JSON values; only strings and \<open>null\<close> occur.
  The file config.json is absent, holds text that \<open>JSON.parse\<close> (or the read) rejects
  with a message, or holds an object. \<open>JSON.parse\<close> is taken to invert
  \<open>JSON.stringify\<close> on such objects, so a file written by \<open>saveConfig\<close> is modelled
  by the object itself.
\<close>

datatype jval = JNull | JStr string

type_synonym config = "string \<rightharpoonup> jval"

datatype file_content = Unreadable string | JsonObject config

type_synonym process_env = "string \<rightharpoonup> string"

text \<open>
  The start-up code: the default from the environment
  (\<open>process.env.NOTIFICATION_CHANNEL_ID || null\<close>), overlaid with the file's object when
  the file exists and parses; a failure is logged and the default kept.
\<close>

definition default_config :: "process_env \<Rightarrow> config" where
  "default_config penv =
     [''notificationChannelId'' \<mapsto>
        (if truthy (penv ''NOTIFICATION_CHANNEL_ID'')
         then JStr (or_else (penv ''NOTIFICATION_CHANNEL_ID'') [])
         else JNull)]"

definition loadConfig :: "process_env \<Rightarrow> file_content option \<Rightarrow> config \<times> event list" where
  "loadConfig penv file =
     (let config = default_config penv in
      case file of
        None \<Rightarrow> (config, [])
      | Some (JsonObject fileConfig) \<Rightarrow> (config ++ fileConfig, [])
      | Some (Unreadable msg) \<Rightarrow>
          (config, [ConsoleError ''Error loading config file:'' (LogText msg)]))"

text \<open>
  What \<open>fs.writeFileSync\<close> does: it writes the whole text; or it throws when it opens
  the file, which then stays as it was; or it throws after it has opened and truncated
  the file, which then holds a proper prefix of the text. Such a prefix lacks the closing
  brace of the object, so \<open>JSON.parse\<close> rejects it. Each failure carries its message, the
  last one also the message of that later \<open>JSON.parse\<close>.
\<close>

datatype write_outcome =
    Written
  | OpenFailed string
  | WriteFailed string string

text \<open>
  \<open>saveConfig\<close> rewrites the file with the whole object; when \<open>writeFileSync\<close> throws,
  the error is logged and not passed on.
\<close>

definition saveConfig ::
  "write_outcome \<Rightarrow> config \<Rightarrow> file_content option \<Rightarrow> file_content option \<times> event list" where
  "saveConfig outcome config file =
     (case outcome of
        Written \<Rightarrow> (Some (JsonObject config), [])
      | OpenFailed msg \<Rightarrow> (file, [ConsoleError ''Error saving config file:'' (LogText msg)])
      | WriteFailed msg parse_msg \<Rightarrow>
          (Some (Unreadable parse_msg),
           [ConsoleError ''Error saving config file:'' (LogText msg)]))"

text \<open>\<open>String.prototype.split\<close> on a one-character separator.\<close>

fun split :: "char \<Rightarrow> string \<Rightarrow> string list" where
  "split sep [] = [[]]"
| "split sep (c # cs) =
     (if c = sep then [] # split sep cs
      else (case split sep cs of [] \<Rightarrow> [[c]] | w # ws \<Rightarrow> (c # w) # ws))"

text \<open>
  What the handlers read from an interaction: the invoking user, the roles of the
  member, whether the member has the Administrator permission, and the id of the channel
  passed as the option \<open>channel\<close>.
\<close>

record interaction =
  user_id :: string
  member_roles :: "string list"
  is_administrator :: bool
  option_channel :: string

definition hasPermission :: "process_env \<Rightarrow> interaction \<Rightarrow> bool" where
  "hasPermission penv i =
     (if truthy (penv ''ALLOWED_ROLE_ID'')
      then or_else (penv ''ALLOWED_ROLE_ID'') [] \<in> set (member_roles i)
      else if truthy (penv ''ADMIN_USER_IDS'')
      then user_id i \<in> set (split CHR '','' (or_else (penv ''ADMIN_USER_IDS'') []))
      else is_administrator i)"

text \<open>
  An embed as built with \<open>EmbedBuilder\<close>: colour, title, description and the fields
  (name, value, inline). The timestamp is left out.
\<close>

record embed =
  color :: string
  title :: string
  description :: string
  embed_fields :: "(string \<times> string \<times> bool) list"

text \<open>UTF-8 bytes of the symbols that start the titles.\<close>

definition red_circle :: string where
  "red_circle = [CHR 0xF0, CHR 0x9F, CHR 0x94, CHR 0xB4]"

definition green_circle :: string where
  "green_circle = [CHR 0xF0, CHR 0x9F, CHR 0x9F, CHR 0xA2]"

definition yellow_circle :: string where
  "yellow_circle = [CHR 0xF0, CHR 0x9F, CHR 0x9F, CHR 0xA1]"

definition warning_sign :: string where
  "warning_sign = [CHR 0xE2, CHR 0x9A, CHR 0xA0, CHR 0xEF, CHR 0xB8, CHR 0x8F]"

definition check_mark :: string where
  "check_mark = [CHR 0xE2, CHR 0x9C, CHR 0x85]"

definition bell :: string where
  "bell = [CHR 0xF0, CHR 0x9F, CHR 0x94, CHR 0x94]"

text \<open>
  \<open>sendNotification\<close>: the channel is \<open>config.notificationChannelId ||
  process.env.NOTIFICATION_CHANNEL_ID\<close>; nothing is sent without one, nor when the
  channel cannot be fetched or is not text based (\<open>deliverable\<close>). The result lists the
  (channel, embed) pairs sent; the line logged when the fetch throws is left out.
\<close>

definition config_channel :: "config \<Rightarrow> string option" where
  "config_channel config =
     (case config ''notificationChannelId'' of Some (JStr c) \<Rightarrow> Some c | _ \<Rightarrow> None)"

definition sendNotification ::
  "process_env \<Rightarrow> config \<Rightarrow> bool \<Rightarrow> embed \<Rightarrow> (string \<times> embed) list" where
  "sendNotification penv config deliverable e =
     (let channelId = (if truthy (config_channel config) then config_channel config
                       else penv ''NOTIFICATION_CHANNEL_ID'') in
      case channelId of
        None \<Rightarrow> []
      | Some c \<Rightarrow> if c = [] then [] else if deliverable then [(c, e)] else [])"

text \<open>
  \<open>handleSetNotificationChannel\<close>: the reply, the \<open>config\<close> object and the file
  afterwards, the notifications sent and what was logged.
\<close>

datatype reply = Content string | Embeds embed

definition handleSetNotificationChannel ::
  "process_env \<Rightarrow> write_outcome \<Rightarrow> bool \<Rightarrow> interaction \<Rightarrow> config \<Rightarrow> file_content option
     \<Rightarrow> reply \<times> config \<times> file_content option \<times> (string \<times> embed) list \<times> event list" where
  "handleSetNotificationChannel penv outcome deliverable i config file =
     (if \<not> hasPermission penv i then
        (Content ''You do not have permission to use this command.'', config, file, [], [])
      else
        (let channel = option_channel i;
             config' = config(''notificationChannelId'' \<mapsto> JStr channel);
             (file', logs) = saveConfig outcome config' file;
             successEmbed =
               \<lparr>color = ''#00ff00'',
                title = check_mark @ '' Notification Channel Set'',
                description = ''Server notifications will now be posted to <#'' @ channel @ ''>'',
                embed_fields = [(''Channel'', ''<#'' @ channel @ ''>'', True),
                                (''Set By'', ''<@'' @ user_id i @ ''>'', True)]\<rparr>;
             testEmbed =
               \<lparr>color = ''#0099ff'',
                title = bell @ '' Notifications Enabled'',
                description = ''This channel will receive server start/stop notifications.'',
                embed_fields = []\<rparr>
         in (Embeds successEmbed, config', file',
             sendNotification penv config' deliverable testEmbed, logs)))"

text \<open>The \<open>config\<close> object and the file after a run of the handler.\<close>

definition config_after ::
  "reply \<times> config \<times> file_content option \<times> (string \<times> embed) list \<times> event list \<Rightarrow> config" where
  "config_after x = fst (snd x)"

definition file_after ::
  "reply \<times> config \<times> file_content option \<times> (string \<times> embed) list \<times> event list
     \<Rightarrow> file_content option" where
  "file_after x = fst (snd (snd x))"

section \<open>The status reconciler (index.js)\<close>

text \<open>
  Modelled from the spec: the result of a successful game-protocol query
  (minecraft-server-util's \<open>status\<close>, not part of the repository): the clean
  message of the day when there is one, the player counts, the names of the optional
  player sample, the version name and the protocol number.
\<close>

record server_status =
  motd_clean :: "string option"
  players_online :: int
  players_max :: int
  players_sample :: "string list option"
  version_name :: "string option"
  version_protocol :: int

text \<open>\<open>result.outputs?.public_ip\<close>\<close>

definition outputs_public_ip :: "resource_snapshot \<Rightarrow> string option" where
  "outputs_public_ip result =
     (case outputs result of None \<Rightarrow> None | Some m \<Rightarrow> m ''public_ip'')"

text \<open>
  What one run of a reconciler path meets: the replies to \<open>getResources\<close>, the outcome
  of the game-protocol query, the clock before and after the query, and the error, if
  any, with which \<open>EmbedBuilder\<close> rejects the Online embed (a field value that is empty or
  longer than 1024 characters, for one). Whether it does is left to the environment, so
  what is proved holds either way.
\<close>

record ping_env =
  api :: "resource_snapshot op_env"
  query_reply :: "js_error + server_status"
  startTime :: int
  endTime :: int
  embed_rejected :: "js_error option"

definition offlineEmbed :: embed where
  "offlineEmbed =
     \<lparr>color = ''#ff0000'',
      title = red_circle @ '' Server Offline'',
      description = ''The Tetracubed server is not currently running.'',
      embed_fields = [(''Status'', ''Infrastructure not provisioned'', False),
                      (''Tip'', ''Use `/start` to launch the server'', False)]\<rparr>"

definition onlineEmbed :: "string \<Rightarrow> int \<Rightarrow> server_status \<Rightarrow> embed" where
  "onlineEmbed serverAddress responseTime serverStatus =
     \<lparr>color = ''#00ff00'',
      title = green_circle @ '' Server Online'',
      description = or_else (motd_clean serverStatus) ''Minecraft Server'',
      embed_fields =
        [(''Address'', ''`'' @ serverAddress @ ''`'', True),
         (''Players'',
          show_int (players_online serverStatus) @ ''/'' @ show_int (players_max serverStatus),
          True),
         (''Response Time'', show_int responseTime @ ''ms'', True),
         (''Version'', or_else (version_name serverStatus) ''Unknown'', True),
         (''Protocol'', show_int (version_protocol serverStatus), True)]
        @ (case players_sample serverStatus of
             Some names \<Rightarrow>
               if players_online serverStatus > 0
               then [(''Online Players'', join '', '' names, False)] else []
           | None \<Rightarrow> [])\<rparr>"

text \<open>The classification made by the catch block of \<open>handlePingServer\<close>.\<close>

definition isTimeout :: "js_error \<Rightarrow> bool" where
  "isTimeout error =
     ((case err_message error of Some m \<Rightarrow> includes_str m ''timeout'' | None \<Rightarrow> False)
      \<or> err_code error = Some ''ETIMEDOUT'')"

definition isRefused :: "js_error \<Rightarrow> bool" where
  "isRefused error = (err_code error = Some ''ECONNREFUSED'')"

definition errorMessage :: "js_error \<Rightarrow> string" where
  "errorMessage error =
     (if isTimeout error then
        ''Connection timed out. The server may be starting up or experiencing issues.''
      else if isRefused error then
        ''Connection refused. The Minecraft server process may not be running yet.''
      else ''Unable to connect to the Minecraft server.'')"

definition statusText :: "js_error \<Rightarrow> string" where
  "statusText error =
     (if isTimeout error then ''Starting up or not responding''
      else if isRefused error then ''Server process not started''
      else ''Server may be starting up or offline'')"

definition errorEmbed :: "js_error \<Rightarrow> embed" where
  "errorEmbed error =
     \<lparr>color = ''#ffaa00'',
      title = warning_sign @ '' Cannot Reach Server'',
      description = errorMessage error,
      embed_fields =
        [(''Status'', statusText error, False),
         (''Tip'',
          ''Infrastructure may be up but Minecraft server is still loading. Try again in 1-2 minutes.'',
          False)]\<rparr>"

text \<open>
  \<open>handlePingServer\<close>, the on-demand path: the embed passed to
  \<open>interaction.editReply\<close>, the session afterwards and what was done. One try block
  covers \<open>getResources\<close>, the query and the building of the Online embed, so an
  error of any of them reaches the catch block. The calls to Discord are taken to
  succeed.
\<close>

definition handlePingServer ::
  "process_env \<Rightarrow> ping_env \<Rightarrow> session \<Rightarrow> embed \<times> session \<times> event list" where
  "handlePingServer penv env s =
     (case getResources (api env) s of
        (Inl error, s', tr) \<Rightarrow>
          (errorEmbed error, s',
           tr @ [ConsoleError ''Error pinging Minecraft server:'' (LogError error)])
      | (Inr result, s', tr) \<Rightarrow>
          (case outputs_public_ip result of
             None \<Rightarrow> (offlineEmbed, s', tr)
           | Some ip \<Rightarrow>
               if ip = [] then (offlineEmbed, s', tr)
               else
                 (let serverAddress = or_else (penv ''SERVER_HOSTNAME'') ip;
                      serverPort = 25565;
                      query = StatusQuery serverAddress serverPort 5000 in
                  case query_reply env of
                    Inr serverStatus \<Rightarrow>
                      (case embed_rejected env of
                         None \<Rightarrow>
                           (onlineEmbed serverAddress (endTime env - startTime env) serverStatus,
                            s', tr @ [query])
                       | Some error \<Rightarrow>
                           (errorEmbed error, s',
                            tr @ [query,
                                  ConsoleError ''Error pinging Minecraft server:''
                                    (LogError error)]))
                  | Inl error \<Rightarrow>
                      (errorEmbed error, s',
                       tr @ [query,
                             ConsoleError ''Error pinging Minecraft server:'' (LogError error)]))))"

text \<open>
  The presence set with \<open>client.user.setPresence\<close>: the activities (name, type) and the
  status.
\<close>

record presence =
  activities :: "(string \<times> nat) list"
  status :: string

definition offline_presence :: presence where
  "offline_presence = \<lparr>activities = [(red_circle @ '' Server Offline'', 3)], status = ''idle''\<rparr>"

definition online_presence :: "server_status \<Rightarrow> presence" where
  "online_presence serverStatus =
     (let playerCount =
            show_int (players_online serverStatus) @ ''/'' @ show_int (players_max serverStatus)
      in \<lparr>activities = [(green_circle @ '' '' @ playerCount @ '' players'', 3)],
          status = ''online''\<rparr>)"

definition starting_presence :: presence where
  "starting_presence =
     \<lparr>activities = [(yellow_circle @ '' Server Starting...'', 3)], status = ''dnd''\<rparr>"

text \<open>
  \<open>updateBotStatus\<close>, the periodic path: the presence it sets (\<open>None\<close> when it sets
  none, after an error of the API), the session afterwards and what was done.
\<close>

definition updateBotStatus ::
  "process_env \<Rightarrow> ping_env \<Rightarrow> session \<Rightarrow> presence option \<times> session \<times> event list" where
  "updateBotStatus penv env s =
     (case getResources (api env) s of
        (Inl error, s', tr) \<Rightarrow>
          (None, s',
           tr @ [ConsoleError ''Error updating bot status:''
                   (LogText (case err_message error of Some m \<Rightarrow> m | None \<Rightarrow> ''undefined''))])
      | (Inr result, s', tr) \<Rightarrow>
          (case outputs_public_ip result of
             None \<Rightarrow> (Some offline_presence, s', tr)
           | Some ip \<Rightarrow>
               if ip = [] then (Some offline_presence, s', tr)
               else
                 (let serverAddress = or_else (penv ''SERVER_HOSTNAME'') ip;
                      query = StatusQuery serverAddress 25565 3000 in
                  case query_reply env of
                    Inr serverStatus \<Rightarrow> (Some (online_presence serverStatus), s', tr @ [query])
                  | Inl error \<Rightarrow> (Some starting_presence, s', tr @ [query]))))"

section \<open>The session invariant\<close>

text \<open>The token and its expiry are either both unset or both set.\<close>

definition both_or_neither :: "session \<Rightarrow> bool" where
  "both_or_neither s = ((accessToken s = None) = (tokenExpiry s = None))"

section \<open>Concrete scenarios\<close>

text \<open>
  Inputs on which the theorems below are instantiated: a fresh client and clients
  holding an expired and a live token, failures of the control plane with a detail
  that is a string, with one that is an object and without one, the replies of a control plane that accepts the credentials at time \<open>now\<close>
  (the token reply arrives 100 ms later), resource snapshots with and without a public
  address, the errors of a refused and of a timed-out connection as Node.js reports
  them, an environment with a stable hostname and a default channel, and an
  administrator choosing channel 222.
\<close>

definition example_client :: session where
  "example_client = TetracubedAPIClient ''https://api.example.org'' ''fox'' ''secret''"

definition example_stale_client :: session where
  "example_stale_client = example_client\<lparr>accessToken := Some ''token-0'', tokenExpiry := Some 1000\<rparr>"

definition example_live_client :: session where
  "example_live_client =
     example_client\<lparr>accessToken := Some ''token-1'', tokenExpiry := Some 1500000\<rparr>"

definition example_rejected :: axios_error where
  "example_rejected =
     \<lparr>ax_message = ''Request failed with status code 401'',
      ax_data = Some (JObject [(''detail'', JString ''Incorrect username or password'')])\<rparr>"



definition example_unreachable :: axios_error where
  "example_unreachable = \<lparr>ax_message = ''connect ECONNREFUSED 10.0.0.1:443'', ax_data = None\<rparr>"

definition example_env :: "int \<Rightarrow> axios_error + 'a \<Rightarrow> 'a op_env" where
  "example_env now r =
     \<lparr>now_check = now, token_reply = Inr \<lparr>access_token = ''token-2''\<rparr>,
      now_issued = now + 100, remote_reply = r\<rparr>"

definition example_provisioned :: resource_snapshot where
  "example_provisioned =
     \<lparr>rs_message = None, stack_name = Some ''tetracubed'',
      outputs = Some [''public_ip'' \<mapsto> ''1.2.3.4'']\<rparr>"

definition example_unprovisioned :: resource_snapshot where
  "example_unprovisioned =
     \<lparr>rs_message = None, stack_name = Some ''tetracubed'',
      outputs = Some [''ecs_cluster_name'' \<mapsto> ''tetracubed-cluster'']\<rparr>"

definition example_refused :: js_error where
  "example_refused =
     \<lparr>err_message = Some ''connect ECONNREFUSED 1.2.3.4:25565'',
      err_code = Some ''ECONNREFUSED''\<rparr>"

text \<open>
  The error with which \<open>status\<close> of minecraft-server-util, a dependency outside the
  repository, rejects when the caller's timeout elapses:
  \<open>new Error('Server is offline or unreachable')\<close>, which has no \<open>code\<close>.
\<close>

definition status_timeout_error :: js_error where
  "status_timeout_error =
     \<lparr>err_message = Some ''Server is offline or unreachable'', err_code = None\<rparr>"

definition example_reset :: js_error where
  "example_reset = \<lparr>err_message = Some ''read ECONNRESET'', err_code = Some ''ECONNRESET''\<rparr>"

definition example_timed_out :: js_error where
  "example_timed_out =
     \<lparr>err_message = Some ''connect ETIMEDOUT 1.2.3.4:25565'',
      err_code = Some ''ETIMEDOUT''\<rparr>"

definition example_ping_env :: "resource_snapshot \<Rightarrow> js_error + server_status \<Rightarrow> ping_env" where
  "example_ping_env snapshot q =
     \<lparr>api = example_env 1000 (Inr snapshot), query_reply = q, startTime = 1200, endTime = 1250,
      embed_rejected = None\<rparr>"

definition example_moved :: resource_snapshot where
  "example_moved =
     \<lparr>rs_message = None, stack_name = Some ''tetracubed'',
      outputs = Some [''public_ip'' \<mapsto> ''5.6.7.8'']\<rparr>"

definition example_penv :: process_env where
  "example_penv =
     [''NOTIFICATION_CHANNEL_ID'' \<mapsto> ''111'', ''SERVER_HOSTNAME'' \<mapsto> ''mc.example.org'']"

definition example_admin :: interaction where
  "example_admin =
     \<lparr>user_id = ''42'', member_roles = [], is_administrator = True, option_channel = ''222''\<rparr>"

section \<open>Properties of the API client\<close>

subsection \<open>What each operation does\<close>

lemma authenticate_Inl:
  "authenticate (Inl error) now s =
     (Inl (Error ''Failed to authenticate with Tetracubed API''), s,
      [TokenPost (baseURL s @ ''/token'') (username s) (password s),
       ConsoleError ''Authentication failed:'' (log_of error)])"
  by (simp add: authenticate_def)

lemma authenticate_Inr:
  "authenticate (Inr response) now s =
     (Inr True,
      s\<lparr>accessToken := Some (access_token response), tokenExpiry := Some (now + 1500000)\<rparr>,
      [TokenPost (baseURL s @ ''/token'') (username s) (password s)])"
  by (simp add: authenticate_def)

lemma authenticate_calls_authenticate:
  "authenticate_calls (trace_of (authenticate reply now s)) = 1"
  by (cases reply) (simp_all add: authenticate_Inl authenticate_Inr trace_of_def authenticate_calls_def)

lemma ensureAuthenticated_fresh:
  "\<not> truthy (accessToken s) \<or> expired now (tokenExpiry s) \<Longrightarrow>
   trace_of (ensureAuthenticated now reply now' s) = trace_of (authenticate reply now' s)
   \<and> state_of (ensureAuthenticated now reply now' s) = state_of (authenticate reply now' s)"
  by (cases reply) (simp_all add: ensureAuthenticated_def authenticate_Inl authenticate_Inr trace_of_def state_of_def)

lemma ensureAuthenticated_held:
  "truthy (accessToken s) \<Longrightarrow> \<not> expired now (tokenExpiry s) \<Longrightarrow>
   ensureAuthenticated now reply now' s = (Inr (), s, [])"
  by (simp add: ensureAuthenticated_def)

lemma remote_call_trace:
  "\<exists>rest. trace_of (remote_call method path timeout label fallback env s) =
     trace_of (ensureAuthenticated (now_check env) (token_reply env) (now_issued env) s) @ rest
     \<and> authenticate_calls rest = 0 \<and> protocol_queries rest = []"
  by (auto simp: remote_call_def trace_of_def authenticate_calls_def protocol_queries_def Let_def
      split: prod.splits sum.splits)

lemma remote_call_state:
  "state_of (remote_call method path timeout label fallback env s) =
     state_of (ensureAuthenticated (now_check env) (token_reply env) (now_issued env) s)"
  by (auto simp: remote_call_def state_of_def Let_def split: prod.splits sum.splits)

lemma authenticate_calls_append:
  "authenticate_calls (xs @ ys) = authenticate_calls xs + authenticate_calls ys"
  by (simp add: authenticate_calls_def)

lemma remote_call_authenticate_calls:
  "authenticate_calls (trace_of (remote_call method path timeout label fallback env s)) =
   authenticate_calls
     (trace_of (ensureAuthenticated (now_check env) (token_reply env) (now_issued env) s))"
proof -
  obtain rest where
    "trace_of (remote_call method path timeout label fallback env s) =
       trace_of (ensureAuthenticated (now_check env) (token_reply env) (now_issued env) s) @ rest"
    and "authenticate_calls rest = 0"
    using remote_call_trace by blast
  then show ?thesis by (simp add: authenticate_calls_append)
qed

lemma ensureAuthenticated_state_cases:
  "state_of (ensureAuthenticated now reply now' s) = s \<or>
   (\<exists>response. reply = Inr response \<and>
      state_of (ensureAuthenticated now reply now' s) =
        s\<lparr>accessToken := Some (access_token response), tokenExpiry := Some (now' + 1500000)\<rparr>)"
  by (cases reply)
     (simp_all add: ensureAuthenticated_def authenticate_Inl authenticate_Inr state_of_def)

lemma ensureAuthenticated_inv:
  "both_or_neither s \<Longrightarrow> both_or_neither (state_of (ensureAuthenticated now reply now' s))"
  using ensureAuthenticated_state_cases [of now reply now' s]
  by (auto simp: both_or_neither_def)

lemma authenticate_inv:
  "both_or_neither s \<Longrightarrow> both_or_neither (state_of (authenticate reply now s))"
  by (cases reply) (simp_all add: authenticate_Inl authenticate_Inr state_of_def both_or_neither_def)

lemma perform_inv: "both_or_neither s \<Longrightarrow> both_or_neither (fst (perform c s))"
proof (cases c)
  case (CallAuthenticate reply now)
  then show "both_or_neither s \<Longrightarrow> ?thesis"
    using authenticate_inv [of s reply now] by (simp add: state_of_def)
next
  case (CallEnsureAuthenticated now reply now')
  then show "both_or_neither s \<Longrightarrow> ?thesis"
    using ensureAuthenticated_inv [of s now reply now'] by (simp add: state_of_def)
next
  case (CallStartServer env)
  then show "both_or_neither s \<Longrightarrow> ?thesis"
    using ensureAuthenticated_inv [of s "now_check env" "token_reply env" "now_issued env"]
      remote_call_state [of "''POST''" "''/tetracubed/start''" "Some 900000"
         "''Start server failed:''" "''Failed to start server''" env s]
    by (simp add: state_of_def startServer_def)
next
  case (CallStopServer env)
  then show "both_or_neither s \<Longrightarrow> ?thesis"
    using ensureAuthenticated_inv [of s "now_check env" "token_reply env" "now_issued env"]
      remote_call_state [of "''POST''" "''/tetracubed/stop''" "Some 900000"
         "''Stop server failed:''" "''Failed to stop server''" env s]
    by (simp add: state_of_def stopServer_def)
next
  case (CallGetResources env)
  then show "both_or_neither s \<Longrightarrow> ?thesis"
    using ensureAuthenticated_inv [of s "now_check env" "token_reply env" "now_issued env"]
      remote_call_state [of "''GET''" "''/tetracubed/resources''" None
         "''Get resources failed:''" "''Failed to get resources''" env s]
    by (simp add: state_of_def getResources_def)
qed

lemma run_inv: "both_or_neither s \<Longrightarrow> both_or_neither (fst (run s cs))"
proof (induction cs arbitrary: s)
  case Nil
  then show ?case by simp
next
  case (Cons c cs)
  from Cons.prems have "both_or_neither (fst (perform c s))" by (rule perform_inv)
  then have "both_or_neither (fst (run (fst (perform c s)) cs))" by (rule Cons.IH)
  then show ?case by (auto split: prod.splits)
qed

lemma ensureAuthenticated_Inl_state:
  "state_of (ensureAuthenticated now (Inl error) now' s) = s"
  by (simp add: ensureAuthenticated_def authenticate_Inl state_of_def)

lemma ensureAuthenticated_calls_fresh:
  "\<not> truthy (accessToken s) \<or> expired now (tokenExpiry s) \<Longrightarrow>
   authenticate_calls (trace_of (ensureAuthenticated now reply now' s)) = 1"
  using ensureAuthenticated_fresh [of s now reply now'] authenticate_calls_authenticate [of reply now' s]
  by simp

lemma authenticate_trace_head:
  "\<exists>rest. trace_of (authenticate reply now s) =
            TokenPost (baseURL s @ ''/token'') (username s) (password s) # rest
          \<and> authenticate_calls rest = 0"
  by (cases reply)
     (simp_all add: authenticate_Inl authenticate_Inr trace_of_def authenticate_calls_def)

lemma remote_call_reauthenticates:
  assumes "\<not> truthy (accessToken s) \<or> expired (now_check env) (tokenExpiry s)"
  shows "\<exists>rest. trace_of (remote_call method path timeout label fallback env s) =
            TokenPost (baseURL s @ ''/token'') (username s) (password s) # rest
          \<and> authenticate_calls rest = 0"
proof -
  obtain r1 where r1:
    "trace_of (authenticate (token_reply env) (now_issued env) s) =
       TokenPost (baseURL s @ ''/token'') (username s) (password s) # r1"
    "authenticate_calls r1 = 0"
    using authenticate_trace_head by blast
  obtain r2 where r2:
    "trace_of (remote_call method path timeout label fallback env s) =
       trace_of (ensureAuthenticated (now_check env) (token_reply env) (now_issued env) s) @ r2"
    "authenticate_calls r2 = 0"
    using remote_call_trace by blast
  from assms have
    "trace_of (ensureAuthenticated (now_check env) (token_reply env) (now_issued env) s) =
       trace_of (authenticate (token_reply env) (now_issued env) s)"
    using ensureAuthenticated_fresh by blast
  with r1 r2 have
    "trace_of (remote_call method path timeout label fallback env s) =
       TokenPost (baseURL s @ ''/token'') (username s) (password s) # (r1 @ r2)"
    "authenticate_calls (r1 @ r2) = 0"
    by (simp_all add: authenticate_calls_append)
  then show ?thesis by blast
qed

lemma remote_call_no_authenticate:
  assumes "truthy (accessToken s)" and "\<not> expired (now_check env) (tokenExpiry s)"
  shows "authenticate_calls (trace_of (remote_call method path timeout label fallback env s)) = 0"
proof -
  have "authenticate_calls
          (trace_of (ensureAuthenticated (now_check env) (token_reply env) (now_issued env) s)) = 0"
    using assms by (simp add: ensureAuthenticated_held trace_of_def authenticate_calls_def)
  then show ?thesis by (simp only: remote_call_authenticate_calls)
qed

lemma expired_after:
  "t + 1500000 \<le> now \<Longrightarrow> expired now (tokenExpiry (state_of (authenticate (Inr response) t s)))"
  by (simp add: authenticate_Inr state_of_def expired_def)

lemma authenticate_Inr_fields:
  "baseURL (state_of (authenticate (Inr response) t s)) = baseURL s"
  "username (state_of (authenticate (Inr response) t s)) = username s"
  "password (state_of (authenticate (Inr response) t s)) = password s"
  by (simp_all add: authenticate_Inr state_of_def)



subsection \<open>A failed token request\<close>

text \<open>
  Claim C10. When \<open>authenticate\<close> fails (the token request throws), the session is
  exactly what it was before the call: \<open>accessToken\<close> and \<open>tokenExpiry\<close> are
  unchanged, so a token held before, expired or not, is neither cleared nor replaced.
  The same holds for \<open>ensureAuthenticated\<close> when the token request it may issue fails.
\<close>

theorem failed_authenticate_keeps_session:
  "state_of (authenticate (Inl error) now s) = s
   \<and> accessToken (state_of (authenticate (Inl error) now s)) = accessToken s
   \<and> tokenExpiry (state_of (authenticate (Inl error) now s)) = tokenExpiry s
   \<and> state_of (ensureAuthenticated now' (Inl error) now s) = s"
  by (simp add: authenticate_Inl state_of_def ensureAuthenticated_Inl_state [unfolded state_of_def])

theorem failed_authenticate_keeps_session_witness:
  "state_of (authenticate (Inl example_rejected) 5000 example_stale_client) = example_stale_client
   \<and> accessToken (state_of (authenticate (Inl example_rejected) 5000 example_stale_client))
       = Some ''token-0''
   \<and> tokenExpiry (state_of (authenticate (Inl example_rejected) 5000 example_stale_client))
       = Some 1000
   \<and> state_of (ensureAuthenticated 4900 (Inl example_rejected) 5000 example_stale_client)
       = example_stale_client"
  using failed_authenticate_keeps_session
    [of example_rejected 5000 example_stale_client 4900]
  by (simp add: example_stale_client_def)

subsection \<open>The expiry set by a successful token request\<close>

text \<open>
  Claim C6. A successful \<open>authenticate\<close> whose reply arrives at time \<open>t\<close> sets
  \<open>tokenExpiry\<close> to exactly \<open>t + 1500000\<close> ms (1500 s, 25 minutes), not to the
  nominal lifetime \<open>t + 1800000\<close> ms; an operation issued at \<open>t + 1500001\<close> ms or later
  then calls \<open>authenticate\<close> again, exactly once and before anything else it does.
\<close>

theorem token_expiry_25_minutes:
  fixes envc :: "control_response op_env" and envr :: "resource_snapshot op_env"
  shows
  "tokenExpiry (state_of (authenticate (Inr response) t s)) = Some (t + 1500000)
   \<and> tokenExpiry (state_of (authenticate (Inr response) t s)) \<noteq> Some (t + 1800000)
   \<and> (t + 1500001 \<le> now \<longrightarrow>
        authenticate_calls
          (trace_of (ensureAuthenticated now reply now'
             (state_of (authenticate (Inr response) t s)))) = 1)
   \<and> (t + 1500001 \<le> now_check envc \<longrightarrow>
        (\<exists>rest. trace_of (startServer envc (state_of (authenticate (Inr response) t s))) =
                  TokenPost (baseURL s @ ''/token'') (username s) (password s) # rest
                \<and> authenticate_calls rest = 0)
        \<and> (\<exists>rest. trace_of (stopServer envc (state_of (authenticate (Inr response) t s))) =
                  TokenPost (baseURL s @ ''/token'') (username s) (password s) # rest
                \<and> authenticate_calls rest = 0))
   \<and> (t + 1500001 \<le> now_check envr \<longrightarrow>
        (\<exists>rest. trace_of (getResources envr (state_of (authenticate (Inr response) t s))) =
                  TokenPost (baseURL s @ ''/token'') (username s) (password s) # rest
                \<and> authenticate_calls rest = 0))"
proof -
  define s1 where "s1 = state_of (authenticate (Inr response) t s)"
  have a: "tokenExpiry s1 = Some (t + 1500000)"
    by (simp add: s1_def authenticate_Inr state_of_def)
  have b: "t + 1500001 \<le> n \<Longrightarrow> expired n (tokenExpiry s1)" for n
    using expired_after [of t n response s] by (simp add: s1_def)
  have c: "t + 1500001 \<le> now \<Longrightarrow>
        authenticate_calls (trace_of (ensureAuthenticated now reply now' s1)) = 1"
    using b ensureAuthenticated_calls_fresh by blast
  have d: "t + 1500001 \<le> now_check env \<Longrightarrow>
        \<exists>rest. trace_of (remote_call verb url tmo lbl fb env s1) =
                  TokenPost (baseURL s @ ''/token'') (username s) (password s) # rest
                \<and> authenticate_calls rest = 0" for env :: "'x op_env" and verb url tmo lbl fb
    using b [of "now_check env"]
      remote_call_reauthenticates [of s1 env verb url tmo lbl fb]
    by (simp add: s1_def authenticate_Inr_fields)
  show ?thesis
    using a c d [of envc] d [of envr]
    unfolding s1_def startServer_def stopServer_def getResources_def
    by simp
qed

theorem token_expiry_25_minutes_witness:
  "(0::int) + 1500001 \<le> 1500001
   \<and> tokenExpiry (state_of (authenticate (Inr \<lparr>access_token = ''token-1''\<rparr>) 0 example_client))
       = Some 1500000
   \<and> authenticate_calls
        (trace_of (ensureAuthenticated 1500001 (Inr \<lparr>access_token = ''token-2''\<rparr>) 1500101
           (state_of (authenticate (Inr \<lparr>access_token = ''token-1''\<rparr>) 0 example_client)))) = 1
   \<and> (\<exists>rest. trace_of (getResources (example_env 1500001 (Inr example_provisioned))
                 (state_of (authenticate (Inr \<lparr>access_token = ''token-1''\<rparr>) 0 example_client))) =
               TokenPost ''https://api.example.org/token'' ''fox'' ''secret'' # rest
             \<and> authenticate_calls rest = 0)"
  using token_expiry_25_minutes [where t = 0 and now = 1500001 and s = example_client
      and response = "\<lparr>access_token = ''token-1''\<rparr>"
      and reply = "Inr \<lparr>access_token = ''token-2''\<rparr>" and now' = 1500101
      and envr = "example_env 1500001 (Inr example_provisioned)"
      and envc = "example_env 1500001 (Inr \<lparr>public_ip = Some ''1.2.3.4''\<rparr>)"]
  by (simp add: example_env_def example_client_def TetracubedAPIClient_def)

subsection \<open>When \<open>ensureAuthenticated\<close> calls \<open>authenticate\<close>\<close>

text \<open>
  Claim C1. In every session, hence after every sequence of operations: when
  \<open>accessToken\<close> is \<open>null\<close>, as in the session the constructor returns,
  \<open>ensureAuthenticated\<close> calls \<open>authenticate\<close> exactly once, and in each of
  \<open>startServer\<close>, \<open>stopServer\<close> and \<open>getResources\<close> that call is the first thing done,
  before the remote request, with no second one after it. When a token is held (the
  guard's own test: \<open>accessToken\<close> is a non-empty string) and the operation is issued
  strictly before the stored \<open>tokenExpiry\<close>, \<open>authenticate\<close> is not called at all.
\<close>

theorem ensureAuthenticated_call_counts:
  fixes envc :: "control_response op_env" and envr :: "resource_snapshot op_env"
  shows
  "(accessToken s = None \<longrightarrow>
      authenticate_calls (trace_of (ensureAuthenticated now reply now' s)) = 1
      \<and> (\<exists>rest. trace_of (startServer envc s) =
                   TokenPost (baseURL s @ ''/token'') (username s) (password s) # rest
                 \<and> authenticate_calls rest = 0)
      \<and> (\<exists>rest. trace_of (stopServer envc s) =
                   TokenPost (baseURL s @ ''/token'') (username s) (password s) # rest
                 \<and> authenticate_calls rest = 0)
      \<and> (\<exists>rest. trace_of (getResources envr s) =
                   TokenPost (baseURL s @ ''/token'') (username s) (password s) # rest
                 \<and> authenticate_calls rest = 0))
   \<and> (truthy (accessToken s) \<and> tokenExpiry s = Some e \<and> now < e \<longrightarrow>
        authenticate_calls (trace_of (ensureAuthenticated now reply now' s)) = 0
        \<and> (now_check envc = now \<longrightarrow>
             authenticate_calls (trace_of (startServer envc s)) = 0
             \<and> authenticate_calls (trace_of (stopServer envc s)) = 0)
        \<and> (now_check envr = now \<longrightarrow>
             authenticate_calls (trace_of (getResources envr s)) = 0))
   \<and> accessToken (TetracubedAPIClient b u p) = None"
proof -
  have fresh: "accessToken s = None \<Longrightarrow> \<not> truthy (accessToken s) \<or> expired n (tokenExpiry s)" for n
    by simp
  have held: "tokenExpiry s = Some e \<Longrightarrow> now < e \<Longrightarrow> \<not> expired now (tokenExpiry s)"
    by (simp add: expired_def)
  have a: "accessToken s = None \<Longrightarrow>
      authenticate_calls (trace_of (ensureAuthenticated now reply now' s)) = 1"
    using fresh ensureAuthenticated_calls_fresh by blast
  have b: "accessToken s = None \<Longrightarrow>
      \<exists>rest. trace_of (remote_call verb url tmo lbl fb env s) =
                   TokenPost (baseURL s @ ''/token'') (username s) (password s) # rest
                 \<and> authenticate_calls rest = 0" for env :: "'x op_env" and verb url tmo lbl fb
    using fresh remote_call_reauthenticates by blast
  have c: "truthy (accessToken s) \<Longrightarrow> tokenExpiry s = Some e \<Longrightarrow> now < e \<Longrightarrow>
      authenticate_calls (trace_of (ensureAuthenticated now reply now' s)) = 0"
    using held by (simp add: ensureAuthenticated_held trace_of_def authenticate_calls_def)
  have d: "truthy (accessToken s) \<Longrightarrow> tokenExpiry s = Some e \<Longrightarrow> now < e \<Longrightarrow>
      now_check env = now \<Longrightarrow>
      authenticate_calls (trace_of (remote_call verb url tmo lbl fb env s)) = 0"
      for env :: "'x op_env" and verb url tmo lbl fb
    using held remote_call_no_authenticate by blast
  show ?thesis
    using a b [of _ _ _ _ _ envc] b [of _ _ _ _ _ envr] c d [of envc] d [of envr]
    unfolding startServer_def stopServer_def getResources_def
    by (simp add: TetracubedAPIClient_def)
qed

theorem ensureAuthenticated_call_counts_witness:
  "accessToken example_client = None
   \<and> authenticate_calls
        (trace_of (ensureAuthenticated 0 (Inr \<lparr>access_token = ''token-1''\<rparr>) 0 example_client)) = 1
   \<and> (\<exists>rest. trace_of (getResources (example_env 0 (Inr example_provisioned)) example_client) =
                TokenPost ''https://api.example.org/token'' ''fox'' ''secret'' # rest
              \<and> authenticate_calls rest = 0)
   \<and> truthy (accessToken example_live_client)
   \<and> tokenExpiry example_live_client = Some 1500000
   \<and> (1499999::int) < 1500000
   \<and> authenticate_calls
        (trace_of (ensureAuthenticated 1499999 (Inr \<lparr>access_token = ''token-2''\<rparr>) 1500050
           example_live_client)) = 0
   \<and> authenticate_calls
        (trace_of (getResources (example_env 1499999 (Inr example_provisioned))
           example_live_client)) = 0"
  using ensureAuthenticated_call_counts
      [where s = example_client and now = 0 and now' = 0
         and reply = "Inr \<lparr>access_token = ''token-1''\<rparr>"
         and envr = "example_env 0 (Inr example_provisioned)"
         and envc = "example_env 0 (Inr \<lparr>public_ip = Some ''1.2.3.4''\<rparr>)"]
    ensureAuthenticated_call_counts
      [where s = example_live_client and now = 1499999 and now' = 1500050 and e = 1500000
         and reply = "Inr \<lparr>access_token = ''token-2''\<rparr>"
         and envr = "example_env 1499999 (Inr example_provisioned)"
         and envc = "example_env 1499999 (Inr \<lparr>public_ip = Some ''1.2.3.4''\<rparr>)"]
  by (simp add: example_env_def example_client_def example_live_client_def
      TetracubedAPIClient_def)

subsection \<open>Token and expiry are set together\<close>

text \<open>
  Claim C2. In every session reached from the constructor by any sequence of calls of
  \<open>authenticate\<close>, \<open>ensureAuthenticated\<close>, \<open>startServer\<close>, \<open>stopServer\<close> and
  \<open>getResources\<close>, whatever the replies, \<open>accessToken\<close> is non-null whenever
  \<open>tokenExpiry\<close> is non-null, and one field is \<open>null\<close> exactly when the other is: no
  operation leaves one set and the other unset.
\<close>

theorem session_token_invariant:
  assumes "fst (run (TetracubedAPIClient b u p) cs) = s"
  shows "(tokenExpiry s \<noteq> None \<longrightarrow> accessToken s \<noteq> None)
         \<and> (accessToken s = None) = (tokenExpiry s = None)"
proof -
  have "both_or_neither (TetracubedAPIClient b u p)"
    by (simp add: both_or_neither_def TetracubedAPIClient_def)
  then have "both_or_neither (fst (run (TetracubedAPIClient b u p) cs))"
    by (rule run_inv)
  with assms show ?thesis by (auto simp: both_or_neither_def)
qed

theorem session_token_invariant_witness:
  "fst (run example_client
          [CallGetResources (example_env 0 (Inl example_unreachable)),
           CallStartServer (example_env 5000 (Inr \<lparr>public_ip = Some ''1.2.3.4''\<rparr>))])
     = example_client\<lparr>accessToken := Some ''token-2'', tokenExpiry := Some 1500100\<rparr>
   \<and> tokenExpiry (example_client\<lparr>accessToken := Some ''token-2'', tokenExpiry := Some 1500100\<rparr>)
       \<noteq> None
   \<and> accessToken (example_client\<lparr>accessToken := Some ''token-2'', tokenExpiry := Some 1500100\<rparr>)
       \<noteq> None"
proof -
  have r: "fst (run example_client
          [CallGetResources (example_env 0 (Inl example_unreachable)),
           CallStartServer (example_env 5000 (Inr \<lparr>public_ip = Some ''1.2.3.4''\<rparr>))])
     = example_client\<lparr>accessToken := Some ''token-2'', tokenExpiry := Some 1500100\<rparr>"
    by (simp add: example_env_def example_client_def TetracubedAPIClient_def getResources_def
        startServer_def remote_call_def ensureAuthenticated_def authenticate_def expired_def
        Let_def)
  from session_token_invariant [of "''https://api.example.org''" "''fox''" "''secret''" _
      "example_client\<lparr>accessToken := Some ''token-2'', tokenExpiry := Some 1500100\<rparr>"]
    r show ?thesis
    by (simp add: example_client_def)
qed

subsection \<open>The errors thrown\<close>




section \<open>Properties of the status reconciler\<close>

subsection \<open>What each path does\<close>

lemma protocol_queries_append:
  "protocol_queries (xs @ ys) = protocol_queries xs @ protocol_queries ys"
  by (simp add: protocol_queries_def)

lemma protocol_queries_simps:
  "protocol_queries [] = []"
  "protocol_queries (StatusQuery h p t # xs) = StatusQuery h p t # protocol_queries xs"
  "protocol_queries (ConsoleError l x # xs) = protocol_queries xs"
  "protocol_queries (TokenPost a b c # xs) = protocol_queries xs"
  "protocol_queries (ApiRequest v u w z # xs) = protocol_queries xs"
  by (simp_all add: protocol_queries_def)

lemma ensureAuthenticated_no_queries:
  "protocol_queries (trace_of (ensureAuthenticated now reply now' s)) = []"
  by (cases reply)
     (simp_all add: ensureAuthenticated_def authenticate_Inl authenticate_Inr trace_of_def
        protocol_queries_def)

lemma getResources_no_queries:
  "protocol_queries (trace_of (getResources env s)) = []"
proof -
  obtain rest where
    "trace_of (getResources env s) =
       trace_of (ensureAuthenticated (now_check env) (token_reply env) (now_issued env) s) @ rest"
    and "protocol_queries rest = []"
    unfolding getResources_def using remote_call_trace by blast
  then show ?thesis
    by (simp add: protocol_queries_append ensureAuthenticated_no_queries)
qed

lemma handlePingServer_offline:
  assumes "result_of (getResources (api env) s) = Inr result"
    and "\<not> truthy (outputs_public_ip result)"
  shows "handlePingServer penv env s =
           (offlineEmbed, state_of (getResources (api env) s), trace_of (getResources (api env) s))"
proof -
  obtain s' tr where g: "getResources (api env) s = (Inr result, s', tr)"
    using assms(1) by (cases "getResources (api env) s") (simp add: result_of_def)
  then show ?thesis
    using assms(2)
    by (cases "outputs_public_ip result")
       (simp_all add: handlePingServer_def state_of_def trace_of_def)
qed

lemma handlePingServer_query:
  assumes "result_of (getResources (api env) s) = Inr result"
    and "outputs_public_ip result = Some ip" and "ip \<noteq> []"
  shows "handlePingServer penv env s =
           (case query_reply env of
              Inr serverStatus \<Rightarrow>
                (case embed_rejected env of
                   None \<Rightarrow>
                     (onlineEmbed (or_else (penv ''SERVER_HOSTNAME'') ip)
                        (endTime env - startTime env) serverStatus,
                      state_of (getResources (api env) s),
                      trace_of (getResources (api env) s)
                        @ [StatusQuery (or_else (penv ''SERVER_HOSTNAME'') ip) 25565 5000])
                 | Some error \<Rightarrow>
                     (errorEmbed error,
                      state_of (getResources (api env) s),
                      trace_of (getResources (api env) s)
                        @ [StatusQuery (or_else (penv ''SERVER_HOSTNAME'') ip) 25565 5000,
                           ConsoleError ''Error pinging Minecraft server:'' (LogError error)]))
            | Inl error \<Rightarrow>
                (errorEmbed error,
                 state_of (getResources (api env) s),
                 trace_of (getResources (api env) s)
                   @ [StatusQuery (or_else (penv ''SERVER_HOSTNAME'') ip) 25565 5000,
                      ConsoleError ''Error pinging Minecraft server:'' (LogError error)]))"
proof -
  obtain s' tr where g: "getResources (api env) s = (Inr result, s', tr)"
    using assms(1) by (cases "getResources (api env) s") (simp add: result_of_def)
  then show ?thesis
    using assms(2,3)
    by (simp add: handlePingServer_def Let_def state_of_def trace_of_def
        split: sum.splits option.splits)
qed

lemma updateBotStatus_offline:
  assumes "result_of (getResources (api env) s) = Inr result"
    and "\<not> truthy (outputs_public_ip result)"
  shows "updateBotStatus penv env s =
           (Some offline_presence, state_of (getResources (api env) s),
            trace_of (getResources (api env) s))"
proof -
  obtain s' tr where g: "getResources (api env) s = (Inr result, s', tr)"
    using assms(1) by (cases "getResources (api env) s") (simp add: result_of_def)
  then show ?thesis
    using assms(2)
    by (cases "outputs_public_ip result")
       (simp_all add: updateBotStatus_def state_of_def trace_of_def)
qed

lemma updateBotStatus_query:
  assumes "result_of (getResources (api env) s) = Inr result"
    and "outputs_public_ip result = Some ip" and "ip \<noteq> []"
  shows "updateBotStatus penv env s =
           (case query_reply env of
              Inr serverStatus \<Rightarrow>
                (Some (online_presence serverStatus),
                 state_of (getResources (api env) s),
                 trace_of (getResources (api env) s)
                   @ [StatusQuery (or_else (penv ''SERVER_HOSTNAME'') ip) 25565 3000])
            | Inl error \<Rightarrow>
                (Some starting_presence,
                 state_of (getResources (api env) s),
                 trace_of (getResources (api env) s)
                   @ [StatusQuery (or_else (penv ''SERVER_HOSTNAME'') ip) 25565 3000]))"
proof -
  obtain s' tr where g: "getResources (api env) s = (Inr result, s', tr)"
    using assms(1) by (cases "getResources (api env) s") (simp add: result_of_def)
  then show ?thesis
    using assms(2,3)
    by (simp add: updateBotStatus_def Let_def state_of_def trace_of_def split: sum.splits)
qed

lemma handlePingServer_failed_api:
  assumes "result_of (getResources (api env) s) = Inl error"
  shows "protocol_queries (trace_of (handlePingServer penv env s)) = []"
proof -
  obtain s' tr where g: "getResources (api env) s = (Inl error, s', tr)"
    using assms by (cases "getResources (api env) s") (simp add: result_of_def)
  then have "trace_of (handlePingServer penv env s) =
      trace_of (getResources (api env) s)
        @ [ConsoleError ''Error pinging Minecraft server:'' (LogError error)]"
    by (simp add: handlePingServer_def trace_of_def)
  then show ?thesis
    by (simp add: protocol_queries_append getResources_no_queries protocol_queries_simps)
qed

lemma updateBotStatus_failed_api:
  assumes "result_of (getResources (api env) s) = Inl error"
  shows "protocol_queries (trace_of (updateBotStatus penv env s)) = []"
proof -
  obtain s' tr where g: "getResources (api env) s = (Inl error, s', tr)"
    using assms by (cases "getResources (api env) s") (simp add: result_of_def)
  then have "\<exists>l. trace_of (updateBotStatus penv env s) =
      trace_of (getResources (api env) s) @ [ConsoleError ''Error updating bot status:'' l]"
    by (simp add: updateBotStatus_def trace_of_def)
  then show ?thesis
    by (auto simp: protocol_queries_append getResources_no_queries protocol_queries_simps)
qed

text \<open>The game-protocol queries of each path, in every case.\<close>

lemma handlePingServer_queries:
  "protocol_queries (trace_of (handlePingServer penv env s)) =
     (case result_of (getResources (api env) s) of
        Inl error \<Rightarrow> []
      | Inr result \<Rightarrow>
          if truthy (outputs_public_ip result) then
            [StatusQuery (or_else (penv ''SERVER_HOSTNAME'') (or_else (outputs_public_ip result) []))
               25565 5000]
          else [])"
proof (cases "result_of (getResources (api env) s)")
  case (Inl error)
  then show ?thesis using handlePingServer_failed_api [of env s error penv] by simp
next
  case (Inr result)
  show ?thesis
  proof (cases "truthy (outputs_public_ip result)")
    case False
    then show ?thesis
      using Inr handlePingServer_offline [of env s result penv]
      by (simp add: trace_of_def getResources_no_queries [unfolded trace_of_def])
  next
    case True
    then obtain ip where ip: "outputs_public_ip result = Some ip" "ip \<noteq> []"
      by (cases "outputs_public_ip result") simp_all
    then show ?thesis
      using Inr True handlePingServer_query [of env s result ip penv]
      by (cases "query_reply env"; cases "embed_rejected env")
         (simp_all add: trace_of_def protocol_queries_append
            getResources_no_queries [unfolded trace_of_def] or_else_def protocol_queries_simps)
  qed
qed

lemma updateBotStatus_queries:
  "protocol_queries (trace_of (updateBotStatus penv env s)) =
     (case result_of (getResources (api env) s) of
        Inl error \<Rightarrow> []
      | Inr result \<Rightarrow>
          if truthy (outputs_public_ip result) then
            [StatusQuery (or_else (penv ''SERVER_HOSTNAME'') (or_else (outputs_public_ip result) []))
               25565 3000]
          else [])"
proof (cases "result_of (getResources (api env) s)")
  case (Inl error)
  then show ?thesis using updateBotStatus_failed_api [of env s error penv] by simp
next
  case (Inr result)
  show ?thesis
  proof (cases "truthy (outputs_public_ip result)")
    case False
    then show ?thesis
      using Inr updateBotStatus_offline [of env s result penv]
      by (simp add: trace_of_def getResources_no_queries [unfolded trace_of_def])
  next
    case True
    then obtain ip where ip: "outputs_public_ip result = Some ip" "ip \<noteq> []"
      by (cases "outputs_public_ip result") simp_all
    then show ?thesis
      using Inr True updateBotStatus_query [of env s result ip penv]
      by (cases "query_reply env")
         (simp_all add: trace_of_def protocol_queries_append
            getResources_no_queries [unfolded trace_of_def] or_else_def protocol_queries_simps)
  qed
qed

lemma includes_str_append:
  "includes_str (a @ sub @ b) sub"
proof (induction a)
  case Nil
  have "startsWith (sub @ b) sub" by (induction sub) simp_all
  then show ?case by (cases "sub @ b") simp_all
next
  case (Cons x a)
  then show ?case by simp
qed

lemma saveConfig_written:
  "saveConfig Written config file = (Some (JsonObject config), [])"
  by (simp add: saveConfig_def)

lemma loadConfig_overlay:
  "fst (loadConfig penv (Some (JsonObject fileConfig))) = default_config penv ++ fileConfig"
  by (simp add: loadConfig_def)

text \<open>The definitions unfolded to run the model on the concrete scenarios.\<close>

lemmas eval_defs =
  example_ping_env_def example_env_def example_client_def example_provisioned_def
  example_unprovisioned_def example_refused_def example_timed_out_def example_moved_def
  example_penv_def
  TetracubedAPIClient_def getResources_def remote_call_def ensureAuthenticated_def
  authenticate_def expired_def handlePingServer_def updateBotStatus_def outputs_public_ip_def
  or_else_def result_of_def trace_of_def state_of_def Let_def protocol_queries_simps

subsection \<open>No public address: Offline\<close>

text \<open>
  Claim C3. Whenever \<open>getResources\<close> returns a result whose outputs lack a
  \<open>public_ip\<close> entry (no \<open>outputs\<close> at all, or outputs without that key), both
  paths present Offline and neither issues a single game-protocol query. The on-demand
  path replies with the red embed titled "Server Offline" (after the red circle) that
  says the infrastructure is not provisioned, which is neither the embed of an
  unreachable server nor that of a server online; the periodic path sets the presence
  "Server Offline" with status \<open>idle\<close>, which is neither the Starting nor the Online
  presence.
\<close>

theorem no_public_ip_is_offline:
  assumes "result_of (getResources (api env) s) = Inr result"
    and "outputs_public_ip result = None"
  shows "result_of (handlePingServer penv env s)
           = \<lparr>color = ''#ff0000'',
              title = [CHR 0xF0, CHR 0x9F, CHR 0x94, CHR 0xB4] @ '' Server Offline'',
              description = ''The Tetracubed server is not currently running.'',
              embed_fields = [(''Status'', ''Infrastructure not provisioned'', False),
                              (''Tip'', ''Use `/start` to launch the server'', False)]\<rparr>
         \<and> result_of (handlePingServer penv env s) \<noteq> errorEmbed error
         \<and> result_of (handlePingServer penv env s) \<noteq> onlineEmbed address time serverStatus
         \<and> protocol_queries (trace_of (handlePingServer penv env s)) = []
         \<and> result_of (updateBotStatus penv env s)
           = Some \<lparr>activities = [([CHR 0xF0, CHR 0x9F, CHR 0x94, CHR 0xB4] @ '' Server Offline'', 3)],
                   status = ''idle''\<rparr>
         \<and> result_of (updateBotStatus penv env s) \<noteq> Some starting_presence
         \<and> result_of (updateBotStatus penv env s) \<noteq> Some (online_presence serverStatus)
         \<and> protocol_queries (trace_of (updateBotStatus penv env s)) = []"
proof -
  have f: "\<not> truthy (outputs_public_ip result)" using assms(2) by simp
  have h: "result_of (handlePingServer penv env s) = offlineEmbed"
    "protocol_queries (trace_of (handlePingServer penv env s)) = []"
    using handlePingServer_offline [OF assms(1) f, of penv]
    by (simp_all add: result_of_def trace_of_def getResources_no_queries [unfolded trace_of_def])
  have u: "result_of (updateBotStatus penv env s) = Some offline_presence"
    "protocol_queries (trace_of (updateBotStatus penv env s)) = []"
    using updateBotStatus_offline [OF assms(1) f, of penv]
    by (simp_all add: result_of_def trace_of_def getResources_no_queries [unfolded trace_of_def])
  have c: "color offlineEmbed \<noteq> color (errorEmbed error)"
    "color offlineEmbed \<noteq> color (onlineEmbed address time serverStatus)"
    by (simp_all add: offlineEmbed_def errorEmbed_def onlineEmbed_def)
  have d: "offlineEmbed \<noteq> errorEmbed error"
    "offlineEmbed \<noteq> onlineEmbed address time serverStatus"
    using c by auto
  have p: "status offline_presence \<noteq> status starting_presence"
    "status offline_presence \<noteq> status (online_presence serverStatus)"
    by (simp_all add: offline_presence_def starting_presence_def online_presence_def Let_def)
  have q: "offline_presence \<noteq> starting_presence"
    "offline_presence \<noteq> online_presence serverStatus"
    using p by auto
  show ?thesis
    using h u d q by (simp add: offlineEmbed_def offline_presence_def red_circle_def)
qed

theorem no_public_ip_is_offline_witness:
  "result_of (getResources (api (example_ping_env example_unprovisioned (Inl example_refused)))
      example_client) = Inr example_unprovisioned
   \<and> outputs_public_ip example_unprovisioned = None
   \<and> title (result_of (handlePingServer example_penv
        (example_ping_env example_unprovisioned (Inl example_refused)) example_client))
       = [CHR 0xF0, CHR 0x9F, CHR 0x94, CHR 0xB4] @ '' Server Offline''
   \<and> protocol_queries (trace_of (handlePingServer example_penv
        (example_ping_env example_unprovisioned (Inl example_refused)) example_client)) = []
   \<and> result_of (updateBotStatus example_penv
        (example_ping_env example_unprovisioned (Inl example_refused)) example_client)
       = Some \<lparr>activities = [([CHR 0xF0, CHR 0x9F, CHR 0x94, CHR 0xB4] @ '' Server Offline'', 3)],
               status = ''idle''\<rparr>
   \<and> protocol_queries (trace_of (updateBotStatus example_penv
        (example_ping_env example_unprovisioned (Inl example_refused)) example_client)) = []"
proof -
  have g: "result_of (getResources (api (example_ping_env example_unprovisioned (Inl example_refused)))
      example_client) = Inr example_unprovisioned"
    by (simp add: eval_defs)
  have p: "outputs_public_ip example_unprovisioned = None"
    by (simp add: example_unprovisioned_def outputs_public_ip_def)
  from no_public_ip_is_offline [OF g p, of example_penv] g p
  show ?thesis by simp
qed

subsection \<open>Unreachable game server: Starting\<close>

text \<open>
  Whenever \<open>getResources\<close> returns a \<open>public_ip\<close> (a non-empty one, as the handlers
  test it) and the game-protocol query fails with any error, neither path fails. The periodic path sets the presence "Server Starting..." with
  status \<open>dnd\<close>, which is not the Offline presence. The on-demand path replies with the
  amber embed titled "Cannot Reach Server", which is not the Offline embed; its Status
  field reads "Server process not started" for an error with code \<open>ECONNREFUSED\<close> whose
  message does not contain \<open>timeout\<close>, and "Starting up or not responding" for an error
  with code \<open>ETIMEDOUT\<close> or a message that contains \<open>timeout\<close>.
\<close>

lemma query_failure_is_starting:
  assumes "result_of (getResources (api env) s) = Inr result"
    and "truthy (outputs_public_ip result)"
    and "query_reply env = Inl error"
  shows "result_of (updateBotStatus penv env s)
           = Some \<lparr>activities =
                     [([CHR 0xF0, CHR 0x9F, CHR 0x9F, CHR 0xA1] @ '' Server Starting...'', 3)],
                   status = ''dnd''\<rparr>
         \<and> result_of (updateBotStatus penv env s) \<noteq> Some offline_presence
         \<and> result_of (handlePingServer penv env s)
           = \<lparr>color = ''#ffaa00'',
              title = [CHR 0xE2, CHR 0x9A, CHR 0xA0, CHR 0xEF, CHR 0xB8, CHR 0x8F]
                        @ '' Cannot Reach Server'',
              description = errorMessage error,
              embed_fields =
                [(''Status'', statusText error, False),
                 (''Tip'',
                  ''Infrastructure may be up but Minecraft server is still loading. Try again in 1-2 minutes.'',
                  False)]\<rparr>
         \<and> result_of (handlePingServer penv env s) \<noteq> offlineEmbed
         \<and> (err_code error = Some ''ECONNREFUSED''
              \<and> (\<forall>m. err_message error = Some m \<longrightarrow> \<not> includes_str m ''timeout'') \<longrightarrow>
              statusText error = ''Server process not started'')
         \<and> (err_code error = Some ''ETIMEDOUT'' \<longrightarrow>
              statusText error = ''Starting up or not responding'')
         \<and> (err_message error = Some (a @ ''timeout'' @ b) \<longrightarrow>
              statusText error = ''Starting up or not responding'')"
proof -
  obtain ip where ip: "outputs_public_ip result = Some ip" "ip \<noteq> []"
    using assms(2) by (cases "outputs_public_ip result") simp_all
  have h: "result_of (handlePingServer penv env s) = errorEmbed error"
    using handlePingServer_query [OF assms(1) ip, of penv] assms(3)
    by (simp add: result_of_def)
  have u: "result_of (updateBotStatus penv env s) = Some starting_presence"
    using updateBotStatus_query [OF assms(1) ip, of penv] assms(3)
    by (simp add: result_of_def)
  have c: "color (errorEmbed error) \<noteq> color offlineEmbed"
    by (simp add: errorEmbed_def offlineEmbed_def)
  have d: "errorEmbed error \<noteq> offlineEmbed" using c by auto
  have p: "status starting_presence \<noteq> status offline_presence"
    by (simp add: starting_presence_def offline_presence_def)
  have q: "starting_presence \<noteq> offline_presence" using p by auto
  have r: "err_code error = Some ''ECONNREFUSED''
           \<and> (\<forall>m. err_message error = Some m \<longrightarrow> \<not> includes_str m ''timeout'') \<longrightarrow>
           statusText error = ''Server process not started''"
    by (cases "err_message error") (simp_all add: statusText_def isTimeout_def isRefused_def)
  have t1: "err_code error = Some ''ETIMEDOUT'' \<longrightarrow>
            statusText error = ''Starting up or not responding''"
    by (simp add: statusText_def isTimeout_def)
  have t2: "err_message error = Some (a @ ''timeout'' @ b) \<longrightarrow>
            statusText error = ''Starting up or not responding''"
    using includes_str_append [of a "''timeout''" b]
    by (simp add: statusText_def isTimeout_def)
  show ?thesis
    using h u d q r t1 t2
    by (simp add: errorEmbed_def starting_presence_def warning_sign_def yellow_circle_def)
qed

text \<open>
  Claim C4 says that on the on-demand path a timeout failure yields a timeout hint of
  its own. The code departs from that: when the timeout passed to the query elapses, the query fails with \<open>status_timeout_error\<close>, whose message does not contain
  \<open>timeout\<close> and which has no code. Both paths still present Starting, but the
  on-demand path gives it no timeout hint: the Status field and the description are
  the ones of a failure the catch block does not classify, such as a connection reset,
  and the hint "Starting up or not responding" is absent.
\<close>

theorem query_timeout_gets_generic_hint:
  assumes "result_of (getResources (api env) s) = Inr result"
    and "truthy (outputs_public_ip result)"
    and "query_reply env = Inl status_timeout_error"
  shows "result_of (handlePingServer penv env s)
           = \<lparr>color = ''#ffaa00'',
              title = [CHR 0xE2, CHR 0x9A, CHR 0xA0, CHR 0xEF, CHR 0xB8, CHR 0x8F]
                        @ '' Cannot Reach Server'',
              description = ''Unable to connect to the Minecraft server.'',
              embed_fields =
                [(''Status'', ''Server may be starting up or offline'', False),
                 (''Tip'',
                  ''Infrastructure may be up but Minecraft server is still loading. Try again in 1-2 minutes.'',
                  False)]\<rparr>
         \<and> result_of (handlePingServer penv env s) = errorEmbed example_reset
         \<and> (''Status'', ''Starting up or not responding'', False)
              \<notin> set (embed_fields (result_of (handlePingServer penv env s)))
         \<and> \<not> isTimeout status_timeout_error
         \<and> result_of (updateBotStatus penv env s)
           = Some \<lparr>activities =
                     [([CHR 0xF0, CHR 0x9F, CHR 0x9F, CHR 0xA1] @ '' Server Starting...'', 3)],
                   status = ''dnd''\<rparr>"
proof -
  obtain ip where ip: "outputs_public_ip result = Some ip" "ip \<noteq> []"
    using assms(2) by (cases "outputs_public_ip result") simp_all
  have h: "result_of (handlePingServer penv env s) = errorEmbed status_timeout_error"
    using handlePingServer_query [OF assms(1) ip, of penv] assms(3)
    by (simp add: result_of_def)
  have u: "result_of (updateBotStatus penv env s) = Some starting_presence"
    using updateBotStatus_query [OF assms(1) ip, of penv] assms(3)
    by (simp add: result_of_def)
  have n: "\<not> isTimeout status_timeout_error" "\<not> isRefused status_timeout_error"
    "\<not> isTimeout example_reset" "\<not> isRefused example_reset"
    by (simp_all add: isTimeout_def isRefused_def status_timeout_error_def example_reset_def)
  show ?thesis
    using h u n
    by (simp add: errorEmbed_def errorMessage_def statusText_def starting_presence_def
        warning_sign_def yellow_circle_def)
qed

theorem query_timeout_gets_generic_hint_witness:
  "result_of (getResources (api (example_ping_env example_provisioned (Inl status_timeout_error)))
      example_client) = Inr example_provisioned
   \<and> truthy (outputs_public_ip example_provisioned)
   \<and> query_reply (example_ping_env example_provisioned (Inl status_timeout_error))
       = Inl status_timeout_error
   \<and> result_of (handlePingServer Map.empty
        (example_ping_env example_provisioned (Inl status_timeout_error)) example_client)
       = \<lparr>color = ''#ffaa00'',
          title = [CHR 0xE2, CHR 0x9A, CHR 0xA0, CHR 0xEF, CHR 0xB8, CHR 0x8F]
                    @ '' Cannot Reach Server'',
          description = ''Unable to connect to the Minecraft server.'',
          embed_fields =
            [(''Status'', ''Server may be starting up or offline'', False),
             (''Tip'',
              ''Infrastructure may be up but Minecraft server is still loading. Try again in 1-2 minutes.'',
              False)]\<rparr>
   \<and> result_of (handlePingServer Map.empty
        (example_ping_env example_provisioned (Inl status_timeout_error)) example_client)
       = errorEmbed example_reset
   \<and> (''Status'', ''Starting up or not responding'', False)
        \<notin> set (embed_fields (result_of (handlePingServer Map.empty
              (example_ping_env example_provisioned (Inl status_timeout_error))
              example_client)))"
proof -
  have g: "result_of (getResources (api (example_ping_env example_provisioned q)) example_client)
             = Inr example_provisioned" for q
    by (simp add: eval_defs)
  have p: "truthy (outputs_public_ip example_provisioned)"
    by (simp add: example_provisioned_def outputs_public_ip_def)
  have q: "query_reply (example_ping_env example_provisioned (Inl e)) = Inl e" for e
    by (simp add: example_ping_env_def)
  from query_timeout_gets_generic_hint
      [OF g [of "Inl status_timeout_error"] p q [of status_timeout_error],
       where penv = Map.empty]
    g [of "Inl status_timeout_error"] p q [of status_timeout_error]
  show ?thesis by blast
qed

subsection \<open>The stable hostname overrides the address\<close>

text \<open>
  Claim C5. Whenever \<open>SERVER_HOSTNAME\<close> is configured (a non-empty value, as \<open>||\<close>
  tests it) and \<open>getResources\<close> returns a \<open>public_ip\<close>, the one game-protocol query
  of either path goes to the configured hostname, whatever the value of \<open>public_ip\<close>.
\<close>

theorem hostname_overrides_public_ip:
  assumes "result_of (getResources (api env) s) = Inr result"
    and "outputs_public_ip result = Some ip" and "ip \<noteq> []"
    and "penv ''SERVER_HOSTNAME'' = Some hostname" and "hostname \<noteq> []"
  shows "protocol_queries (trace_of (handlePingServer penv env s))
           = [StatusQuery hostname 25565 5000]
         \<and> protocol_queries (trace_of (updateBotStatus penv env s))
           = [StatusQuery hostname 25565 3000]"
  using assms
  by (simp add: handlePingServer_queries updateBotStatus_queries or_else_def)

theorem hostname_overrides_public_ip_witness:
  "example_penv ''SERVER_HOSTNAME'' = Some ''mc.example.org''
   \<and> outputs_public_ip example_provisioned = Some ''1.2.3.4''
   \<and> outputs_public_ip example_moved = Some ''5.6.7.8''
   \<and> protocol_queries (trace_of (handlePingServer example_penv
         (example_ping_env example_provisioned (Inl example_refused)) example_client))
       = [StatusQuery ''mc.example.org'' 25565 5000]
   \<and> protocol_queries (trace_of (updateBotStatus example_penv
         (example_ping_env example_provisioned (Inl example_refused)) example_client))
       = [StatusQuery ''mc.example.org'' 25565 3000]
   \<and> protocol_queries (trace_of (handlePingServer example_penv
         (example_ping_env example_moved (Inl example_refused)) example_client))
       = [StatusQuery ''mc.example.org'' 25565 5000]
   \<and> protocol_queries (trace_of (updateBotStatus example_penv
         (example_ping_env example_moved (Inl example_refused)) example_client))
       = [StatusQuery ''mc.example.org'' 25565 3000]"
proof -
  have g: "result_of (getResources (api (example_ping_env snapshot q)) example_client)
             = Inr snapshot" for snapshot q
    by (simp add: eval_defs)
  have p: "outputs_public_ip example_provisioned = Some ''1.2.3.4''"
    "outputs_public_ip example_moved = Some ''5.6.7.8''"
    by (simp_all add: example_provisioned_def example_moved_def outputs_public_ip_def)
  have h: "example_penv ''SERVER_HOSTNAME'' = Some ''mc.example.org''"
    by (simp add: example_penv_def)
  have n: "''1.2.3.4'' \<noteq> []" "''5.6.7.8'' \<noteq> []" "''mc.example.org'' \<noteq> []"
    by simp_all
  from hostname_overrides_public_ip
      [where penv = example_penv,
       OF g [of example_provisioned "Inl example_refused"] p(1) n(1) h n(3)]
    hostname_overrides_public_ip
      [where penv = example_penv,
       OF g [of example_moved "Inl example_refused"] p(2) n(2) h n(3)]
    p h
  show ?thesis by blast
qed

subsection \<open>The timeouts of the game-protocol query\<close>

text \<open>
  Claim C8. In every run of the on-demand path each game-protocol query it issues is to
  port 25565 with a timeout of 5000 ms, and in every run of the periodic path with a
  timeout of 3000 ms; each path issues exactly one such query whenever
  \<open>getResources\<close> returns a \<open>public_ip\<close>.
\<close>

theorem query_timeouts:
  "(\<forall>q \<in> set (protocol_queries (trace_of (handlePingServer penv env s))).
      \<exists>host. q = StatusQuery host 25565 5000)
   \<and> (\<forall>q \<in> set (protocol_queries (trace_of (updateBotStatus penv env s))).
      \<exists>host. q = StatusQuery host 25565 3000)
   \<and> (result_of (getResources (api env) s) = Inr result \<and> truthy (outputs_public_ip result) \<longrightarrow>
        (\<exists>host. protocol_queries (trace_of (handlePingServer penv env s))
                  = [StatusQuery host 25565 5000])
        \<and> (\<exists>host. protocol_queries (trace_of (updateBotStatus penv env s))
                  = [StatusQuery host 25565 3000]))"
  by (auto simp: handlePingServer_queries updateBotStatus_queries split: sum.splits)

theorem query_timeouts_witness:
  "protocol_queries (trace_of (handlePingServer Map.empty
       (example_ping_env example_provisioned (Inl example_timed_out)) example_client))
     = [StatusQuery ''1.2.3.4'' 25565 5000]
   \<and> StatusQuery ''1.2.3.4'' 25565 5000
       \<in> set (protocol_queries (trace_of (handlePingServer Map.empty
            (example_ping_env example_provisioned (Inl example_timed_out)) example_client)))
   \<and> (\<exists>host. StatusQuery ''1.2.3.4'' 25565 5000 = StatusQuery host 25565 5000)
   \<and> protocol_queries (trace_of (updateBotStatus Map.empty
       (example_ping_env example_provisioned (Inl example_timed_out)) example_client))
     = [StatusQuery ''1.2.3.4'' 25565 3000]
   \<and> StatusQuery ''1.2.3.4'' 25565 3000
       \<in> set (protocol_queries (trace_of (updateBotStatus Map.empty
            (example_ping_env example_provisioned (Inl example_timed_out)) example_client)))
   \<and> (\<exists>host. StatusQuery ''1.2.3.4'' 25565 3000 = StatusQuery host 25565 3000)"
  using query_timeouts
      [where penv = Map.empty and s = example_client and result = example_provisioned
         and env = "example_ping_env example_provisioned (Inl example_timed_out)"]
  by (simp add: eval_defs)

section \<open>Properties of the runtime configuration\<close>

text \<open>
  Claim C9, as amended. For every channel identifier: when the invoking user passes the
  permission check and the write of config.json succeeds, the command leaves in the
  file the \<open>config\<close> object with \<open>notificationChannelId\<close> set to the new channel, and
  a fresh load, under any environment, observes that value in place of the environment
  default.
\<close>

theorem saved_channel_survives_restart:
  assumes "hasPermission penv i"
  shows "file_after (handleSetNotificationChannel penv Written deliverable i config file)
           = Some (JsonObject (config(''notificationChannelId'' \<mapsto> JStr (option_channel i))))
         \<and> fst (loadConfig penv'
                  (file_after (handleSetNotificationChannel penv Written deliverable i config file)))
               ''notificationChannelId''
           = Some (JStr (option_channel i))
         \<and> config_channel
              (fst (loadConfig penv'
                  (file_after
                     (handleSetNotificationChannel penv Written deliverable i config file))))
           = Some (option_channel i)"
proof -
  have f: "file_after (handleSetNotificationChannel penv Written deliverable i config file)
           = Some (JsonObject (config(''notificationChannelId'' \<mapsto> JStr (option_channel i))))"
    using assms
    by (simp add: handleSetNotificationChannel_def file_after_def saveConfig_written Let_def)
  then show ?thesis
    by (simp add: loadConfig_overlay config_channel_def)
qed

theorem saved_channel_survives_restart_witness:
  "hasPermission example_penv example_admin
   \<and> file_after (handleSetNotificationChannel example_penv Written True example_admin
        (default_config example_penv) None)
     = Some (JsonObject ((default_config example_penv)(''notificationChannelId'' \<mapsto> JStr ''222'')))
   \<and> fst (loadConfig example_penv
        (file_after (handleSetNotificationChannel example_penv Written True example_admin
           (default_config example_penv) None))) ''notificationChannelId''
     = Some (JStr ''222'')
   \<and> default_config example_penv ''notificationChannelId'' = Some (JStr ''111'')"
proof -
  have h: "hasPermission example_penv example_admin"
    by (simp add: hasPermission_def example_penv_def example_admin_def)
  have d: "default_config example_penv ''notificationChannelId'' = Some (JStr ''111'')"
    by (simp add: default_config_def example_penv_def or_else_def)
  have c: "option_channel example_admin = ''222''"
    by (simp add: example_admin_def)
  from saved_channel_survives_restart
      [OF h, of True "default_config example_penv" None example_penv] h d
  show ?thesis unfolding c by blast
qed

text \<open>
  The claim as stated fails when the write fails: \<open>saveConfig\<close> catches and logs the
  error of \<open>writeFileSync\<close>. Here an administrator sets channel 222 while the file
  system is read-only, so that the file cannot be opened, and no config.json exists:
  the \<open>config\<close> object in memory holds 222, nothing is stored, and a fresh load
  observes the environment default 111.
\<close>

theorem failed_write_is_not_persisted:
  "hasPermission example_penv example_admin
   \<and> option_channel example_admin = ''222''
   \<and> config_after (handleSetNotificationChannel example_penv
        (OpenFailed ''EROFS: read-only file system'') True example_admin
        (default_config example_penv) None) ''notificationChannelId''
     = Some (JStr ''222'')
   \<and> file_after (handleSetNotificationChannel example_penv
        (OpenFailed ''EROFS: read-only file system'') True example_admin
        (default_config example_penv) None)
     = None
   \<and> fst (loadConfig example_penv
        (file_after (handleSetNotificationChannel example_penv
           (OpenFailed ''EROFS: read-only file system'') True example_admin
           (default_config example_penv) None))) ''notificationChannelId''
     = Some (JStr ''111'')
   \<and> fst (loadConfig example_penv
        (file_after (handleSetNotificationChannel example_penv
           (OpenFailed ''EROFS: read-only file system'') True example_admin
           (default_config example_penv) None))) ''notificationChannelId''
     \<noteq> Some (JStr ''222'')"
  by (simp add: handleSetNotificationChannel_def hasPermission_def example_penv_def
      example_admin_def saveConfig_def loadConfig_def default_config_def or_else_def
      config_after_def file_after_def Let_def)

end
